theory Spec2Isabelle
  imports Complex_Main
begin

section \<open>The love-game module: data model\<close>

text \<open>
  The module under verification is the "Do You Love Me?" mini-game
  (\<^verbatim>\<open>love-game.ts\<close>): an evasive No button and a celebration that is triggered by
  the Yes button.

  JavaScript numbers are modelled by their ideal values: coordinates, sizes and scales
  are \<^typ>\<open>real\<close>, the two counters of the game state (which start at 0 and only ever
  change by \<^verbatim>\<open>++\<close>) are \<^typ>\<open>nat\<close>. Rounding of IEEE doubles and sizes or
  coordinates that are \<^verbatim>\<open>NaN\<close> or \<^verbatim>\<open>Infinity\<close> are outside the model; the one
  \<^verbatim>\<open>NaN\<close> that the code computes from such values, a remainder by 0, is modelled.
  Strings are byte strings; the emoji of the source are written as their UTF-8 bytes.
\<close>

type_synonym position = "real \<times> real"

record LoveGameConfig =
  questionText :: string
  yesButtonText :: string
  noButtonText :: string
  evasionSpeed :: real
  celebrationDuration :: real
  shrinkThreshold :: real
  minButtonScale :: real
  containerSelector :: string
  yesButtonSelector :: string
  noButtonSelector :: string
  celebrationSelector :: string
  pleadingMessages :: "string list"
  celebrationTitle :: string
  celebrationSubtitle :: string

record LoveGameState =
  noButtonPosition :: position
  hasAnsweredYes :: bool
  evasionCount :: nat
  noButtonScale :: real
  currentMessageIndex :: nat

definition createInitialState :: LoveGameState where
  "createInitialState =
     \<lparr>noButtonPosition = (0, 0), hasAnsweredYes = False, evasionCount = 0,
      noButtonScale = 1, currentMessageIndex = 0\<rparr>"

subsection \<open>The environment: layout, motion preference, random source\<close>

text \<open>
  \<^verbatim>\<open>getBoundingClientRect()\<close> is read for its width and height only.
  \<^verbatim>\<open>Math.random()\<close> is a fixed sequence of draws together with the number of draws
  made so far; each call returns the next draw and advances the counter.
\<close>

record DOMRect =
  width :: real
  height :: real

record Env =
  reducedMotion :: bool
  random :: "nat \<Rightarrow> real"
  draws :: nat

definition Math_random :: "Env \<Rightarrow> real \<times> Env" where
  "Math_random e = (random e (draws e), e\<lparr>draws := Suc (draws e)\<rparr>)"

definition prefersReducedMotion :: "Env \<Rightarrow> bool" where
  "prefersReducedMotion e = reducedMotion e"

text \<open>The contract of \<^verbatim>\<open>Math.random()\<close>: every draw lies in \<open>[0, 1)\<close>.\<close>

definition unit_draws :: "(nat \<Rightarrow> real) \<Rightarrow> bool" where
  "unit_draws r \<longleftrightarrow> (\<forall>i. 0 \<le> r i \<and> r i < 1)"

section \<open>Evasion engine\<close>

subsection \<open>\<^verbatim>\<open>calculateEvasionPosition\<close>\<close>

definition maxAttempts :: nat where
  "maxAttempts = 10"

text \<open>
  The \<^verbatim>\<open>do ... while\<close> loop. One iteration draws \<^verbatim>\<open>newX\<close> and \<^verbatim>\<open>newY\<close>, counts the
  attempt, and repeats while the budget is not used up and the candidate is closer than
  50 to the current position on both axes. The result carries the number of attempts
  made and the environment after the draws.
\<close>

function evasion_loop ::
  "real \<Rightarrow> real \<Rightarrow> position \<Rightarrow> nat \<Rightarrow> Env \<Rightarrow> position \<times> nat \<times> Env" where
  "evasion_loop safeMaxX safeMaxY currentPosition attempts e =
     (let (rx, e1) = Math_random e;
          newX = rx * safeMaxX;
          (ry, e2) = Math_random e1;
          newY = ry * safeMaxY;
          attempts' = attempts + 1
      in if attempts' < maxAttempts \<and>
            \<bar>newX - fst currentPosition\<bar> < 50 \<and>
            \<bar>newY - snd currentPosition\<bar> < 50
         then evasion_loop safeMaxX safeMaxY currentPosition attempts' e2
         else ((newX, newY), attempts', e2))"
  by pat_completeness auto
termination
  by (relation "measure (\<lambda>(mx, my, cur, attempts, e). maxAttempts - attempts)")
     (auto simp: maxAttempts_def Math_random_def)

declare evasion_loop.simps [simp del]

definition calculateEvasionPosition_run ::
  "DOMRect \<Rightarrow> DOMRect \<Rightarrow> position \<Rightarrow> Env \<Rightarrow> position \<times> nat \<times> Env" where
  "calculateEvasionPosition_run containerRect buttonRect currentPosition e =
     (let maxX = width containerRect - width buttonRect;
          maxY = height containerRect - height buttonRect;
          safeMaxX = max 0 maxX;
          safeMaxY = max 0 maxY
      in evasion_loop safeMaxX safeMaxY currentPosition 0 e)"

definition calculateEvasionPosition ::
  "DOMRect \<Rightarrow> DOMRect \<Rightarrow> position \<Rightarrow> Env \<Rightarrow> position \<times> Env" where
  "calculateEvasionPosition containerRect buttonRect currentPosition e =
     (case calculateEvasionPosition_run containerRect buttonRect currentPosition e of
        (p, attempts, e') \<Rightarrow> (p, e'))"

text \<open>The \<open>j\<close>-th candidate (counting from 0) that a call starting at \<open>e\<close> draws.\<close>

definition candidate :: "real \<Rightarrow> real \<Rightarrow> Env \<Rightarrow> nat \<Rightarrow> position" where
  "candidate safeMaxX safeMaxY e j =
     (random e (draws e + 2 * j) * safeMaxX, random e (draws e + 2 * j + 1) * safeMaxY)"

definition too_close :: "position \<Rightarrow> position \<Rightarrow> bool" where
  "too_close p currentPosition \<longleftrightarrow>
     \<bar>fst p - fst currentPosition\<bar> < 50 \<and> \<bar>snd p - snd currentPosition\<bar> < 50"

subsection \<open>\<^verbatim>\<open>calculateShrinkScale\<close>\<close>

definition calculateShrinkScale :: "real \<Rightarrow> real \<Rightarrow> real \<Rightarrow> real" where
  "calculateShrinkScale evasionCount' shrinkThreshold' minScale =
     (if evasionCount' < shrinkThreshold' then 1
      else let evasionsPastThreshold = evasionCount' - shrinkThreshold';
               shrinkAmount = evasionsPastThreshold * (1 / 10);
               newScale = 1 - shrinkAmount
           in max minScale newScale)"

subsection \<open>The elements the game touches\<close>

text \<open>
  Of an element only what the module reads or writes is kept. A style property that the
  source sets from a number (\<^verbatim>\<open>left\<close>, \<^verbatim>\<open>top\<close>, the factor of
  \<^verbatim>\<open>transform: scale(...)\<close>) holds that number; \<open>None\<close> is the empty string that
  \<^verbatim>\<open>destroy\<close> writes.
\<close>

record ButtonStyle =
  style_position :: string
  style_left :: "real option"
  style_top :: "real option"
  style_transform :: "real option"
  style_transition :: string

record ButtonEl =
  rect :: DOMRect
  textContent :: string
  style :: ButtonStyle

record MessageEl =
  message_text :: string
  message_animate :: bool

text \<open>
  The game container: its rectangle, the \<^verbatim>\<open>.pleading-message\<close> child when there is
  one, and whether the \<^verbatim>\<open>.game-question\<close> and \<^verbatim>\<open>.game-buttons\<close> children carry the
  class \<^verbatim>\<open>hidden\<close> (\<open>None\<close> when the child does not exist).
\<close>

record ContainerEl =
  container_rect :: DOMRect
  container_position :: string
  pleading_message :: "MessageEl option"
  game_question_hidden :: "bool option"
  game_buttons_hidden :: "bool option"

datatype node =
  Heart string real real real
| CelebrationMessage string string

record CelebrationEl =
  hidden :: bool
  active :: bool
  children :: "node list"

subsection \<open>JavaScript's remainder, indexing and \<^verbatim>\<open>??\<close>\<close>

text \<open>
  \<^verbatim>\<open>a % 0\<close> is \<^verbatim>\<open>NaN\<close> (here \<open>None\<close>); an array read at \<^verbatim>\<open>NaN\<close> or past the end
  is \<^verbatim>\<open>undefined\<close> (here \<open>None\<close>) and does not throw; \<^verbatim>\<open>v ?? d\<close> is \<open>d\<close> when \<open>v\<close>
  is \<^verbatim>\<open>undefined\<close>.
\<close>

definition js_mod :: "nat \<Rightarrow> nat \<Rightarrow> nat option" where
  "js_mod a b = (if b = 0 then None else Some (a mod b))"

definition js_index :: "'a list \<Rightarrow> nat option \<Rightarrow> 'a option" where
  "js_index xs i =
     (case i of None \<Rightarrow> None
      | Some j \<Rightarrow> if j < length xs then Some (xs ! j) else None)"

definition nullish :: "'a option \<Rightarrow> 'a \<Rightarrow> 'a" where
  "nullish v d = (case v of None \<Rightarrow> d | Some a \<Rightarrow> a)"

subsection \<open>\<^verbatim>\<open>showPleadingMessage\<close>\<close>

text \<open>The fallback text \<^verbatim>\<open>'Please? '\<close> followed by U+1F97A.\<close>

definition fallbackMessage :: string where
  "fallbackMessage = ''Please? '' @ [CHR 0xF0, CHR 0x9F, CHR 0xA5, CHR 0xBA]"

definition showPleadingMessage ::
  "ContainerEl \<Rightarrow> LoveGameState \<Rightarrow> LoveGameConfig \<Rightarrow> ContainerEl \<times> LoveGameState" where
  "showPleadingMessage container s config =
     (let messageEl =
            (case pleading_message container of
               None \<Rightarrow> \<lparr>message_text = [], message_animate = False\<rparr>
             | Some el \<Rightarrow> el);
          messages = pleadingMessages config;
          message = js_index messages (js_mod (currentMessageIndex s) (length messages));
          messageEl = messageEl\<lparr>message_text := nullish message fallbackMessage\<rparr>;
          messageEl = messageEl\<lparr>message_animate := False\<rparr>;
          messageEl = messageEl\<lparr>message_animate := True\<rparr>
      in (container\<lparr>pleading_message := Some messageEl\<rparr>,
          s\<lparr>currentMessageIndex := currentMessageIndex s + 1\<rparr>))"

subsection \<open>\<^verbatim>\<open>evadeNoButton\<close>\<close>

definition evadeNoButton ::
  "ButtonEl \<Rightarrow> ContainerEl \<Rightarrow> LoveGameState \<Rightarrow> LoveGameConfig \<Rightarrow> Env
     \<Rightarrow> ButtonEl \<times> ContainerEl \<times> LoveGameState \<times> Env" where
  "evadeNoButton button container s config e =
     (if hasAnsweredYes s then (button, container, s, e)
      else
        let (newPosition, e) =
              calculateEvasionPosition (container_rect container) (rect button)
                (noButtonPosition s) e;
            s = s\<lparr>noButtonPosition := newPosition\<rparr>;
            s = s\<lparr>evasionCount := evasionCount s + 1\<rparr>;
            button = (if evasionCount s = 1 then button\<lparr>textContent := ''Hmm...''\<rparr>
                      else button);
            s = s\<lparr>noButtonScale :=
                    calculateShrinkScale (real (evasionCount s)) (shrinkThreshold config)
                      (minButtonScale config)\<rparr>;
            transitionStyle =
              (if prefersReducedMotion e then ''none'' else ''all 0.2s ease-out'');
            button = button\<lparr>style :=
                       \<lparr>style_position = ''absolute'',
                        style_left = Some (fst newPosition),
                        style_top = Some (snd newPosition),
                        style_transform = Some (noButtonScale s),
                        style_transition = transitionStyle\<rparr>\<rparr>;
            (container, s) = showPleadingMessage container s config
        in (button, container, s, e))"

text \<open>
  A sequence of calls on one state record. Between two calls the layout may change, so
  every call comes with the rectangles of the container and of the button that it finds.
\<close>

fun evade_sequence ::
  "(DOMRect \<times> DOMRect) list \<Rightarrow> LoveGameConfig
     \<Rightarrow> ButtonEl \<times> ContainerEl \<times> LoveGameState \<times> Env
     \<Rightarrow> ButtonEl \<times> ContainerEl \<times> LoveGameState \<times> Env" where
  "evade_sequence [] config w = w"
| "evade_sequence ((containerRect, buttonRect) # layouts) config (button, container, s, e) =
     evade_sequence layouts config
       (evadeNoButton (button\<lparr>rect := buttonRect\<rparr>)
          (container\<lparr>container_rect := containerRect\<rparr>) s config e)"

section \<open>Celebration trigger\<close>

definition heartEmojis :: "string list" where
  "heartEmojis =
     [[CHR 0xF0, CHR 0x9F, CHR 0x92, CHR 0x95], [CHR 0xF0, CHR 0x9F, CHR 0x92, CHR 0x96],
      [CHR 0xF0, CHR 0x9F, CHR 0x92, CHR 0x97], [CHR 0xF0, CHR 0x9F, CHR 0x92, CHR 0x9D],
      [CHR 0xE2, CHR 0x9D, CHR 0xA4, CHR 0xEF, CHR 0xB8, CHR 0x8F],
      [CHR 0xF0, CHR 0x9F, CHR 0x92, CHR 0x98], [CHR 0xF0, CHR 0x9F, CHR 0x92, CHR 0x93],
      [CHR 0xF0, CHR 0x9F, CHR 0x92, CHR 0x9E]]"

text \<open>
  The \<^verbatim>\<open>for\<close> loop of \<^verbatim>\<open>createHeartParticles\<close>: heart \<open>i\<close> takes its emoji by index
  and three draws for its position, delay and duration.
\<close>

function heart_loop :: "nat \<Rightarrow> nat \<Rightarrow> node list \<Rightarrow> Env \<Rightarrow> node list \<times> Env" where
  "heart_loop i count' hearts e =
     (if i < count' then
        let heartEmoji = nullish (js_index heartEmojis (js_mod i (length heartEmojis)))
                           [CHR 0xF0, CHR 0x9F, CHR 0x92, CHR 0x95];
            (r1, e) = Math_random e;
            randomX = r1 * 100;
            (r2, e) = Math_random e;
            randomDelay = r2 * (1 / 2);
            (r3, e) = Math_random e;
            randomDuration = 1 + r3 * 1
        in heart_loop (i + 1) count' (hearts @ [Heart heartEmoji randomX randomDelay randomDuration]) e
      else (hearts, e))"
  by pat_completeness auto
termination
  by (relation "measure (\<lambda>(i, count', hearts, e). count' - i)") auto

declare heart_loop.simps [simp del]

definition createHeartParticles :: "nat \<Rightarrow> Env \<Rightarrow> node list \<times> Env" where
  "createHeartParticles count' e = heart_loop 0 count' [] e"

text \<open>
  \<^verbatim>\<open>createCelebrationMessage\<close> as \<^verbatim>\<open>triggerCelebration\<close> calls it, with the
  configuration present.
\<close>

definition createCelebrationMessage :: "LoveGameConfig \<Rightarrow> node" where
  "createCelebrationMessage config =
     CelebrationMessage (celebrationTitle config) (celebrationSubtitle config)"

definition triggerCelebration ::
  "CelebrationEl \<Rightarrow> LoveGameState \<Rightarrow> LoveGameConfig \<Rightarrow> Env
     \<Rightarrow> CelebrationEl \<times> LoveGameState \<times> Env" where
  "triggerCelebration celebrationContainer s config e =
     (let s = s\<lparr>hasAnsweredYes := True\<rparr>;
          c = celebrationContainer\<lparr>children := []\<rparr>;
          c = c\<lparr>hidden := False\<rparr>;
          c = c\<lparr>active := True\<rparr>;
          (c, e) =
            (if \<not> prefersReducedMotion e then
               let (hearts, e) = createHeartParticles 20 e
               in (c\<lparr>children := children c @ hearts\<rparr>, e)
             else (c, e));
          message = createCelebrationMessage config;
          c = c\<lparr>children := children c @ [message]\<rparr>
      in (c, s, e))"

text \<open>
  The click handler that \<^verbatim>\<open>setupYesButtonHandlers\<close> installs. The optional callback
  \<^verbatim>\<open>onCelebration\<close> acts on whatever its owner keeps, here a value of type \<open>'c\<close>.
\<close>

definition handleYesClick ::
  "CelebrationEl \<Rightarrow> LoveGameState \<Rightarrow> LoveGameConfig \<Rightarrow> ('c \<Rightarrow> 'c) option \<Rightarrow> Env \<Rightarrow> 'c
     \<Rightarrow> CelebrationEl \<times> LoveGameState \<times> Env \<times> 'c" where
  "handleYesClick celebrationContainer s config onCelebration e collaborator =
     (if \<not> hasAnsweredYes s then
        let (c, s, e) = triggerCelebration celebrationContainer s config e
        in (c, s, e, (case onCelebration of None \<Rightarrow> collaborator
                      | Some notify \<Rightarrow> notify collaborator))
      else (celebrationContainer, s, e, collaborator))"

definition hideGameElements :: "ContainerEl \<Rightarrow> ContainerEl" where
  "hideGameElements container =
     (let container =
            (case game_question_hidden container of
               Some h \<Rightarrow> container\<lparr>game_question_hidden := Some True\<rparr>
             | None \<Rightarrow> container)
      in (case game_buttons_hidden container of
            Some h \<Rightarrow> container\<lparr>game_buttons_hidden := Some True\<rparr>
          | None \<Rightarrow> container))"

section \<open>The game handle: \<^verbatim>\<open>createLoveGame\<close>\<close>

text \<open>
  The page gives, for each of the four selectors of the configuration, the element that
  \<^verbatim>\<open>document.querySelector\<close> finds (\<open>None\<close> for \<^verbatim>\<open>null\<close>). The closure of
  \<^verbatim>\<open>createLoveGame\<close> keeps references to these elements: a reference is either
  \<^verbatim>\<open>null\<close> or bound to the page's element, so it is a flag here and the element itself
  stays in the page, where every holder of the reference sees its changes. The listeners
  installed on the two buttons are flags as well.
\<close>

record Page =
  page_container :: "ContainerEl option"
  page_yesButton :: "unit option"
  page_noButton :: "ButtonEl option"
  page_celebration :: "CelebrationEl option"

datatype cleanup = NoButtonCleanup | YesButtonCleanup

record LoveGame =
  g_config :: LoveGameConfig
  g_state :: LoveGameState
  g_env :: Env
  g_page :: Page
  ref_container :: bool
  ref_yesButton :: bool
  ref_noButton :: bool
  ref_celebrationContainer :: bool
  cleanupFunctions :: "cleanup list"
  isInitialized :: bool
  noButtonListeners :: bool
  yesButtonListeners :: bool
  warnings :: nat

definition the_container :: "LoveGame \<Rightarrow> ContainerEl option" where
  "the_container g = (if ref_container g then page_container (g_page g) else None)"

definition the_noButton :: "LoveGame \<Rightarrow> ButtonEl option" where
  "the_noButton g = (if ref_noButton g then page_noButton (g_page g) else None)"

definition the_celebrationContainer :: "LoveGame \<Rightarrow> CelebrationEl option" where
  "the_celebrationContainer g =
     (if ref_celebrationContainer g then page_celebration (g_page g) else None)"

definition set_container :: "ContainerEl \<Rightarrow> LoveGame \<Rightarrow> LoveGame" where
  "set_container c g = g\<lparr>g_page := (g_page g)\<lparr>page_container := Some c\<rparr>\<rparr>"

definition set_noButton :: "ButtonEl \<Rightarrow> LoveGame \<Rightarrow> LoveGame" where
  "set_noButton b g = g\<lparr>g_page := (g_page g)\<lparr>page_noButton := Some b\<rparr>\<rparr>"

definition set_celebrationContainer :: "CelebrationEl \<Rightarrow> LoveGame \<Rightarrow> LoveGame" where
  "set_celebrationContainer c g = g\<lparr>g_page := (g_page g)\<lparr>page_celebration := Some c\<rparr>\<rparr>"

text \<open>
  The argument \<open>cfg\<close> is the merged configuration
  \<^verbatim>\<open>{ ...DEFAULT_CONFIG, ...customConfig }\<close>.
\<close>

definition createLoveGame :: "LoveGameConfig \<Rightarrow> Page \<Rightarrow> Env \<Rightarrow> LoveGame" where
  "createLoveGame cfg page e =
     \<lparr>g_config = cfg, g_state = createInitialState, g_env = e, g_page = page,
      ref_container = False, ref_yesButton = False, ref_noButton = False,
      ref_celebrationContainer = False, cleanupFunctions = [], isInitialized = False,
      noButtonListeners = False, yesButtonListeners = False, warnings = 0\<rparr>"

definition init :: "LoveGame \<Rightarrow> LoveGame" where
  "init g =
     (if isInitialized g then g
      else
        let g = g\<lparr>ref_container := page_container (g_page g) \<noteq> None,
                   ref_yesButton := page_yesButton (g_page g) \<noteq> None,
                   ref_noButton := page_noButton (g_page g) \<noteq> None,
                   ref_celebrationContainer := page_celebration (g_page g) \<noteq> None\<rparr>
        in case the_container g of
             None \<Rightarrow> g\<lparr>warnings := warnings g + 1\<rparr>
           | Some c \<Rightarrow>
               if \<not> ref_yesButton g \<or> \<not> ref_noButton g \<or> \<not> ref_celebrationContainer g
               then g\<lparr>warnings := warnings g + 1\<rparr>
               else
                 let g = set_container (c\<lparr>container_position := ''relative''\<rparr>) g;
                     g = g\<lparr>noButtonListeners := True\<rparr>;
                     g = g\<lparr>cleanupFunctions := cleanupFunctions g @ [NoButtonCleanup]\<rparr>;
                     g = g\<lparr>yesButtonListeners := True\<rparr>;
                     g = g\<lparr>cleanupFunctions := cleanupFunctions g @ [YesButtonCleanup]\<rparr>
                 in g\<lparr>isInitialized := True\<rparr>)"

definition getState :: "LoveGame \<Rightarrow> LoveGameState" where
  "getState g = g_state g"

definition triggerCelebrationManual :: "LoveGame \<Rightarrow> LoveGame" where
  "triggerCelebrationManual g =
     (case the_celebrationContainer g of
        None \<Rightarrow> g
      | Some cel \<Rightarrow>
          if \<not> hasAnsweredYes (g_state g) then
            let (cel, s, e) = triggerCelebration cel (g_state g) (g_config g) (g_env g);
                g = set_celebrationContainer cel (g\<lparr>g_state := s, g_env := e\<rparr>)
            in (case the_container g of
                  None \<Rightarrow> g
                | Some c \<Rightarrow> set_container (hideGameElements c) g)
          else g)"

definition evadeNoButtonManual :: "LoveGame \<Rightarrow> LoveGame" where
  "evadeNoButtonManual g =
     (case (the_noButton g, the_container g) of
        (Some b, Some c) \<Rightarrow>
          if \<not> hasAnsweredYes (g_state g) then
            let (b, c, s, e) = evadeNoButton b c (g_state g) (g_config g) (g_env g)
            in set_noButton b (set_container c (g\<lparr>g_state := s, g_env := e\<rparr>))
          else g
      | _ \<Rightarrow> g)"

fun run_cleanup :: "cleanup \<Rightarrow> LoveGame \<Rightarrow> LoveGame" where
  "run_cleanup NoButtonCleanup g = g\<lparr>noButtonListeners := False\<rparr>"
| "run_cleanup YesButtonCleanup g = g\<lparr>yesButtonListeners := False\<rparr>"

definition destroy :: "LoveGame \<Rightarrow> LoveGame" where
  "destroy g =
     (let g = fold run_cleanup (cleanupFunctions g) g;
          g = g\<lparr>cleanupFunctions := []\<rparr>;
          g = (case the_noButton g of
                 None \<Rightarrow> g
               | Some b \<Rightarrow>
                   set_noButton
                     (b\<lparr>style := \<lparr>style_position = [], style_left = None, style_top = None,
                                  style_transform = None, style_transition = []\<rparr>\<rparr>) g);
          g = (case the_celebrationContainer g of
                 None \<Rightarrow> g
               | Some cel \<Rightarrow>
                   set_celebrationContainer
                     (cel\<lparr>active := False, hidden := True, children := []\<rparr>) g);
          g = (case the_container g of
                 None \<Rightarrow> g
               | Some c \<Rightarrow>
                   let c = (case game_question_hidden c of
                              Some h \<Rightarrow> c\<lparr>game_question_hidden := Some False\<rparr>
                            | None \<Rightarrow> c);
                       c = (case game_buttons_hidden c of
                              Some h \<Rightarrow> c\<lparr>game_buttons_hidden := Some False\<rparr>
                            | None \<Rightarrow> c)
                   in set_container c g);
          s = g_state g;
          s = s\<lparr>noButtonPosition := (0, 0)\<rparr>;
          s = s\<lparr>hasAnsweredYes := False\<rparr>;
          s = s\<lparr>evasionCount := 0\<rparr>;
          s = s\<lparr>noButtonScale := 1\<rparr>;
          s = s\<lparr>currentMessageIndex := 0\<rparr>;
          g = g\<lparr>g_state := s\<rparr>
      in g\<lparr>isInitialized := False\<rparr>)"

text \<open>
  What can happen to a game: the calls on its handle, the pointer reaching the No button
  (\<^verbatim>\<open>mouseenter\<close>, \<^verbatim>\<open>touchstart\<close>), the Yes button being activated (\<^verbatim>\<open>click\<close>,
  \<^verbatim>\<open>touchend\<close>, Enter or Space), and the layout giving the container and the No button
  new rectangles. The listeners act only while they are installed, on the elements that
  the references are bound to; the callback that \<^verbatim>\<open>init\<close> passes to
  \<^verbatim>\<open>setupYesButtonHandlers\<close> hides the game elements.
\<close>

datatype event =
  CallInit
| CallDestroy
| CallTriggerCelebration
| CallEvadeNoButton
| ApproachNoButton
| ActivateYesButton
| Relayout DOMRect DOMRect

definition approachNoButton :: "LoveGame \<Rightarrow> LoveGame" where
  "approachNoButton g =
     (if noButtonListeners g then
        (case (the_noButton g, the_container g) of
           (Some b, Some c) \<Rightarrow>
             let (b, c, s, e) = evadeNoButton b c (g_state g) (g_config g) (g_env g)
             in set_noButton b (set_container c (g\<lparr>g_state := s, g_env := e\<rparr>))
         | _ \<Rightarrow> g)
      else g)"

definition activateYesButton :: "LoveGame \<Rightarrow> LoveGame" where
  "activateYesButton g =
     (if yesButtonListeners g then
        (case the_celebrationContainer g of
           None \<Rightarrow> g
         | Some cel \<Rightarrow>
             let (cel, s, e, c) =
                   handleYesClick cel (g_state g) (g_config g)
                     (Some (map_option hideGameElements)) (g_env g) (the_container g);
                 g = set_celebrationContainer cel (g\<lparr>g_state := s, g_env := e\<rparr>)
             in (case c of None \<Rightarrow> g | Some c \<Rightarrow> set_container c g))
      else g)"

definition relayout :: "DOMRect \<Rightarrow> DOMRect \<Rightarrow> LoveGame \<Rightarrow> LoveGame" where
  "relayout containerRect buttonRect g =
     g\<lparr>g_page := (g_page g)
         \<lparr>page_container :=
            map_option (\<lambda>c. c\<lparr>container_rect := containerRect\<rparr>) (page_container (g_page g)),
          page_noButton :=
            map_option (\<lambda>b. b\<lparr>rect := buttonRect\<rparr>) (page_noButton (g_page g))\<rparr>\<rparr>"

fun step :: "event \<Rightarrow> LoveGame \<Rightarrow> LoveGame" where
  "step CallInit g = init g"
| "step CallDestroy g = destroy g"
| "step CallTriggerCelebration g = triggerCelebrationManual g"
| "step CallEvadeNoButton g = evadeNoButtonManual g"
| "step ApproachNoButton g = approachNoButton g"
| "step ActivateYesButton g = activateYesButton g"
| "step (Relayout containerRect buttonRect) g = relayout containerRect buttonRect g"

definition run :: "event list \<Rightarrow> LoveGame \<Rightarrow> LoveGame" where
  "run events g = fold step events g"

section \<open>Concrete inputs\<close>

text \<open>
  The inputs at which the theorems below are instantiated: the 500 by 400 container and the
  80 by 40 button of the module's tests, a configuration with threshold 5 and minimum scale
  0.3, and three random sources.
\<close>

definition example_env :: Env where
  "example_env = \<lparr>reducedMotion = False, random = (\<lambda>i. 1 / 2), draws = 0\<rparr>"

definition zero_env :: Env where
  "zero_env = \<lparr>reducedMotion = False, random = (\<lambda>i. 0), draws = 0\<rparr>"

definition varying_env :: Env where
  "varying_env = \<lparr>reducedMotion = False, random = (\<lambda>i. 1 / (real i + 2)), draws = 0\<rparr>"

definition example_config :: LoveGameConfig where
  "example_config =
     \<lparr>questionText = ''Do You Love Me?'', yesButtonText = ''Yes!'', noButtonText = ''No'',
      evasionSpeed = 100, celebrationDuration = 3000, shrinkThreshold = 5,
      minButtonScale = 3 / 10, containerSelector = ''#game-container'',
      yesButtonSelector = ''#yes-button'', noButtonSelector = ''#no-button'',
      celebrationSelector = ''#celebration'',
      pleadingMessages = [''Please?'', ''Pretty please?''],
      celebrationTitle = ''Yayyyy!'', celebrationSubtitle = ''I knew you would say yes!''\<rparr>"

definition no_messages_config :: LoveGameConfig where
  "no_messages_config = example_config\<lparr>pleadingMessages := []\<rparr>"

definition example_button :: ButtonEl where
  "example_button =
     \<lparr>rect = \<lparr>width = 80, height = 40\<rparr>, textContent = ''No'',
      style = \<lparr>style_position = [], style_left = None, style_top = None,
               style_transform = None, style_transition = []\<rparr>\<rparr>"

definition example_container :: ContainerEl where
  "example_container =
     \<lparr>container_rect = \<lparr>width = 500, height = 400\<rparr>, container_position = ''relative'',
      pleading_message = None, game_question_hidden = Some False,
      game_buttons_hidden = Some False\<rparr>"

definition example_celebration :: CelebrationEl where
  "example_celebration = \<lparr>hidden = True, active = False, children = []\<rparr>"

definition example_page :: Page where
  "example_page =
     \<lparr>page_container = Some example_container, page_yesButton = Some (),
      page_noButton = Some example_button, page_celebration = Some example_celebration\<rparr>"

definition answered_state :: LoveGameState where
  "answered_state = createInitialState\<lparr>hasAnsweredYes := True, evasionCount := 3\<rparr>"

text \<open>A first celebration on a fresh state, and a second call on what the first one left.\<close>

definition first_celebration :: "CelebrationEl \<times> LoveGameState \<times> Env" where
  "first_celebration =
     triggerCelebration example_celebration createInitialState example_config varying_env"

definition second_celebration :: "CelebrationEl \<times> LoveGameState \<times> Env" where
  "second_celebration =
     triggerCelebration (fst first_celebration) (fst (snd first_celebration)) example_config
       (snd (snd first_celebration))"

text \<open>A game that was initialised, evaded once and then accepted.\<close>

definition answered_game :: LoveGame where
  "answered_game =
     run [CallInit, ApproachNoButton, ActivateYesButton]
       (createLoveGame example_config example_page example_env)"

text \<open>Three evasions, the second one in a container smaller than the button.\<close>

definition three_layouts :: "(DOMRect \<times> DOMRect) list" where
  "three_layouts =
     [(\<lparr>width = 500, height = 400\<rparr>, \<lparr>width = 80, height = 40\<rparr>),
      (\<lparr>width = 100, height = 50\<rparr>, \<lparr>width = 200, height = 200\<rparr>),
      (\<lparr>width = 500, height = 400\<rparr>, \<lparr>width = 80, height = 40\<rparr>)]"

section \<open>The retry loop\<close>

text \<open>
  What a run of the loop that starts with \<open>a\<close> attempts already counted returns: the
  number \<open>n\<close> of attempts after it, the last candidate drawn, and the environment with two
  draws used per attempt. Every candidate before the last was too close, and the last one
  is not, unless the budget is used up.
\<close>

lemma evasion_loop_spec:
  assumes "evasion_loop mx my cur a e = (p, n, e')"
  shows "a < n \<and> (a < maxAttempts \<longrightarrow> n \<le> maxAttempts)
       \<and> p = candidate mx my e (n - a - 1)
       \<and> e' = e\<lparr>draws := draws e + 2 * (n - a)\<rparr>
       \<and> (\<forall>j < n - a - 1. too_close (candidate mx my e j) cur)
       \<and> (n < maxAttempts \<longrightarrow> \<not> too_close p cur)"
  using assms
proof (induction mx my cur a e arbitrary: p n e' rule: evasion_loop.induct)
  case (1 mx my cur a e)
  let ?c = "candidate mx my e 0"
  let ?e2 = "e\<lparr>draws := draws e + 2\<rparr>"
  show ?case
  proof (cases "a + 1 < maxAttempts \<and> too_close ?c cur")
    case True
    then have rec: "evasion_loop mx my cur (a + 1) ?e2 = (p, n, e')"
      using "1.prems"
      by (subst (asm) evasion_loop.simps)
         (simp add: Math_random_def candidate_def too_close_def Let_def)
    have IH: "a + 1 < n \<and> (a + 1 < maxAttempts \<longrightarrow> n \<le> maxAttempts)
       \<and> p = candidate mx my ?e2 (n - (a + 1) - 1)
       \<and> e' = ?e2\<lparr>draws := draws ?e2 + 2 * (n - (a + 1))\<rparr>
       \<and> (\<forall>j < n - (a + 1) - 1. too_close (candidate mx my ?e2 j) cur)
       \<and> (n < maxAttempts \<longrightarrow> \<not> too_close p cur)"
      using True rec
      by (intro "1.IH"[where p = p and n = n and e' = e'])
         (auto simp: Math_random_def candidate_def too_close_def Let_def)
    have shift: "candidate mx my ?e2 j = candidate mx my e (Suc j)" for j
      by (simp add: candidate_def)
    from IH have n: "a + 1 < n" by simp
    have "n - a - 1 = Suc (n - (a + 1) - 1)" using n by simp
    then have p: "p = candidate mx my e (n - a - 1)"
      using IH shift by simp
    have e: "e' = e\<lparr>draws := draws e + 2 * (n - a)\<rparr>"
    proof -
      have "draws e + 2 + 2 * (n - (a + 1)) = draws e + 2 * (n - a)" using n by simp
      then show ?thesis using IH by simp
    qed
    have close: "too_close (candidate mx my e j) cur" if "j < n - a - 1" for j
    proof (cases j)
      case 0
      then show ?thesis using True by simp
    next
      case (Suc k)
      then have "k < n - (a + 1) - 1" using that by simp
      then show ?thesis using IH shift Suc by simp
    qed
    show ?thesis using IH n p e close True by auto
  next
    case False
    then have res: "(p, n, e') = (?c, a + 1, ?e2)"
      using "1.prems"
      by (subst (asm) evasion_loop.simps)
         (auto simp: Math_random_def candidate_def too_close_def Let_def)
    then show ?thesis using False by auto
  qed
qed

lemma calculateEvasionPosition_run_spec:
  assumes "calculateEvasionPosition_run containerRect buttonRect cur e = (p, n, e')"
  defines "mx \<equiv> max 0 (width containerRect - width buttonRect)"
    and "my \<equiv> max 0 (height containerRect - height buttonRect)"
  shows "1 \<le> n" and "n \<le> 10"
    and "p = candidate mx my e (n - 1)"
    and "e' = e\<lparr>draws := draws e + 2 * n\<rparr>"
    and "\<forall>j < n - 1. too_close (candidate mx my e j) cur"
    and "n < 10 \<longrightarrow> \<not> too_close p cur"
proof -
  have "evasion_loop mx my cur 0 e = (p, n, e')"
    using assms(1) by (simp add: calculateEvasionPosition_run_def mx_def my_def Let_def)
  from evasion_loop_spec[OF this]
  show "1 \<le> n" and "n \<le> 10"
    and "p = candidate mx my e (n - 1)"
    and "e' = e\<lparr>draws := draws e + 2 * n\<rparr>"
    and "\<forall>j < n - 1. too_close (candidate mx my e j) cur"
    and "n < 10 \<longrightarrow> \<not> too_close p cur"
    by (auto simp: maxAttempts_def)
qed

lemma candidate_in_box:
  assumes "unit_draws (random e)" "0 \<le> mx" "0 \<le> my"
  shows "0 \<le> fst (candidate mx my e j) \<and> fst (candidate mx my e j) \<le> mx
       \<and> 0 \<le> snd (candidate mx my e j) \<and> snd (candidate mx my e j) \<le> my"
proof -
  have r: "0 \<le> random e i \<and> random e i \<le> 1" for i
    using assms(1) by (simp add: unit_draws_def less_imp_le)
  show ?thesis
    using r assms(2,3)
    by (simp add: candidate_def mult_left_le_one_le mult_le_cancel_right1)
qed

section \<open>Properties of the evasion engine\<close>

text \<open>
  Claim C1. For every container and button rectangle and every current position, inside
  the container or not, \<^verbatim>\<open>calculateEvasionPosition\<close> returns \<open>(x, y)\<close> with
  \<open>0 \<le> x \<le> max 0 (container width - button width)\<close> and
  \<open>0 \<le> y \<le> max 0 (container height - button height)\<close>, provided that
  \<^verbatim>\<open>Math.random()\<close> keeps its contract of returning values in \<open>[0, 1)\<close>. The sizes need not
  even be non-negative. Coordinates are real numbers here, so they are finite by type.
\<close>

theorem calculateEvasionPosition_within_bounds:
  assumes "unit_draws (random e)"
  shows "0 \<le> fst (fst (calculateEvasionPosition containerRect buttonRect cur e))
       \<and> fst (fst (calculateEvasionPosition containerRect buttonRect cur e))
           \<le> max 0 (width containerRect - width buttonRect)
       \<and> 0 \<le> snd (fst (calculateEvasionPosition containerRect buttonRect cur e))
       \<and> snd (fst (calculateEvasionPosition containerRect buttonRect cur e))
           \<le> max 0 (height containerRect - height buttonRect)"
proof -
  obtain p n e' where
    run: "calculateEvasionPosition_run containerRect buttonRect cur e = (p, n, e')"
    by (cases "calculateEvasionPosition_run containerRect buttonRect cur e") auto
  then have res: "fst (calculateEvasionPosition containerRect buttonRect cur e) = p"
    by (simp add: calculateEvasionPosition_def)
  note p = calculateEvasionPosition_run_spec(3)[OF run]
  show ?thesis
    unfolding res
    by (subst (1 2 3 4) p) (rule candidate_in_box[OF assms], simp_all)
qed

theorem calculateEvasionPosition_within_bounds_witness:
  "unit_draws (random example_env)
   \<and> fst (calculateEvasionPosition \<lparr>width = 500, height = 400\<rparr> \<lparr>width = 80, height = 40\<rparr>
            (1000, - 7) example_env) = (210, 180)
   \<and> 0 \<le> fst (fst (calculateEvasionPosition \<lparr>width = 500, height = 400\<rparr>
                 \<lparr>width = 80, height = 40\<rparr> (1000, - 7) example_env))
   \<and> fst (fst (calculateEvasionPosition \<lparr>width = 500, height = 400\<rparr>
                 \<lparr>width = 80, height = 40\<rparr> (1000, - 7) example_env)) \<le> 420"
proof -
  have u: "unit_draws (random example_env)"
    by (simp add: unit_draws_def example_env_def)
  have v: "fst (calculateEvasionPosition \<lparr>width = 500, height = 400\<rparr>
             \<lparr>width = 80, height = 40\<rparr> (1000, - 7) example_env) = (210, 180)"
    by (simp add: calculateEvasionPosition_def calculateEvasionPosition_run_def)
       (subst evasion_loop.simps, simp add: Math_random_def example_env_def maxAttempts_def)
  show ?thesis
    using u v
      calculateEvasionPosition_within_bounds[OF u, of "\<lparr>width = 500, height = 400\<rparr>"
        "\<lparr>width = 80, height = 40\<rparr>" "(1000, - 7)"]
    by simp
qed

text \<open>
  Claim C7, as stated, asks for \<open>(0, 0)\<close> as soon as one of the two axes has no room.
  That fails: with a container of 100 by 400, a button of 200 by 40 and every draw equal
  to \<open>1/2\<close>, the horizontal axis has no room, and the result is \<open>(0, 180)\<close>.
\<close>

theorem one_degenerate_axis_counterexample:
  "(max 0 (width \<lparr>width = 100, height = 400\<rparr> - width \<lparr>width = 200, height = 40\<rparr>) = (0::real)
      \<or> max 0 (height \<lparr>width = 100, height = 400\<rparr> - height \<lparr>width = 200, height = 40\<rparr>)
          = (0::real))
   \<and> fst (calculateEvasionPosition \<lparr>width = 100, height = 400\<rparr> \<lparr>width = 200, height = 40\<rparr>
            (0, 0) example_env) = (0, 180)
   \<and> fst (calculateEvasionPosition \<lparr>width = 100, height = 400\<rparr> \<lparr>width = 200, height = 40\<rparr>
            (0, 0) example_env) \<noteq> (0, 0)"
  by (simp add: calculateEvasionPosition_def calculateEvasionPosition_run_def)
     (subst evasion_loop.simps, simp add: Math_random_def example_env_def maxAttempts_def)+

text \<open>
  Claim C7, amended. Each axis on its own: when the container is not wider than the button
  the returned \<open>x\<close> is 0, when it is not taller the returned \<open>y\<close> is 0, whatever the
  random source and the current position are. So the result is \<open>(0, 0)\<close> when both axes
  have no room, as for a container of 100 by 50 and a button of 200 by 200.
\<close>

theorem degenerate_axis_is_zero:
  "(width containerRect \<le> width buttonRect \<longrightarrow>
      fst (fst (calculateEvasionPosition containerRect buttonRect cur e)) = 0)
   \<and> (height containerRect \<le> height buttonRect \<longrightarrow>
      snd (fst (calculateEvasionPosition containerRect buttonRect cur e)) = 0)
   \<and> (width containerRect \<le> width buttonRect \<and> height containerRect \<le> height buttonRect \<longrightarrow>
      fst (calculateEvasionPosition containerRect buttonRect cur e) = (0, 0))"
proof -
  obtain p n e' where
    run: "calculateEvasionPosition_run containerRect buttonRect cur e = (p, n, e')"
    by (cases "calculateEvasionPosition_run containerRect buttonRect cur e") auto
  then have res: "fst (calculateEvasionPosition containerRect buttonRect cur e) = p"
    by (simp add: calculateEvasionPosition_def)
  note p = calculateEvasionPosition_run_spec(3)[OF run]
  show ?thesis
    unfolding res by (subst (1 2 3) p) (simp add: candidate_def max_def)
qed

theorem degenerate_axis_is_zero_witness:
  "width \<lparr>width = 100, height = 50\<rparr> \<le> width \<lparr>width = 200, height = 200\<rparr>
   \<and> height \<lparr>width = 100, height = 50\<rparr> \<le> height \<lparr>width = 200, height = 200\<rparr>
   \<and> fst (calculateEvasionPosition \<lparr>width = 100, height = 50\<rparr> \<lparr>width = 200, height = 200\<rparr>
            (30, 10) example_env) = (0, 0)"
  using degenerate_axis_is_zero[of "\<lparr>width = 100, height = 50\<rparr>"
      "\<lparr>width = 200, height = 200\<rparr>" "(30, 10)" example_env]
  by simp

text \<open>
  Claim C8. The loop is a total function: its termination is proved with the measure
  \<open>maxAttempts - attempts\<close>. A call makes \<open>n\<close> attempts with \<open>1 \<le> n \<le> 10\<close>, two draws
  each, and returns the candidate of the last attempt. Every earlier candidate was closer
  than 50 to the current position on both axes, so a redraw happens only then. When the
  call stops before the tenth attempt its result is not that close; when the first nine
  candidates are all too close, the tenth is returned whatever its distance.
\<close>

theorem retry_loop_bounded:
  "case calculateEvasionPosition_run containerRect buttonRect cur e of
     (p, n, e') \<Rightarrow>
       1 \<le> n \<and> n \<le> 10
       \<and> draws e' = draws e + 2 * n
       \<and> p = candidate (max 0 (width containerRect - width buttonRect))
               (max 0 (height containerRect - height buttonRect)) e (n - 1)
       \<and> (\<forall>j < n - 1. too_close (candidate (max 0 (width containerRect - width buttonRect))
               (max 0 (height containerRect - height buttonRect)) e j) cur)
       \<and> (n < 10 \<longrightarrow> \<not> too_close p cur)
       \<and> ((\<forall>j < 9. too_close (candidate (max 0 (width containerRect - width buttonRect))
               (max 0 (height containerRect - height buttonRect)) e j) cur) \<longrightarrow>
            n = 10 \<and> p = candidate (max 0 (width containerRect - width buttonRect))
               (max 0 (height containerRect - height buttonRect)) e 9)"
proof -
  obtain p n e' where
    run: "calculateEvasionPosition_run containerRect buttonRect cur e = (p, n, e')"
    by (cases "calculateEvasionPosition_run containerRect buttonRect cur e") auto
  let ?mx = "max 0 (width containerRect - width buttonRect)"
  let ?my = "max 0 (height containerRect - height buttonRect)"
  note a1 = calculateEvasionPosition_run_spec(1)[OF run]
    and a2 = calculateEvasionPosition_run_spec(2)[OF run]
    and a4 = calculateEvasionPosition_run_spec(3)[OF run]
    and a5 = calculateEvasionPosition_run_spec(5)[OF run]
    and a6 = calculateEvasionPosition_run_spec(6)[OF run]
  have a3: "draws e' = draws e + 2 * n"
    by (subst calculateEvasionPosition_run_spec(4)[OF run]) simp
  have a7: "(\<forall>j < 9. too_close (candidate ?mx ?my e j) cur) \<longrightarrow>
              n = 10 \<and> p = candidate ?mx ?my e 9"
  proof
    assume all: "\<forall>j < 9. too_close (candidate ?mx ?my e j) cur"
    have "n = 10"
    proof (rule ccontr)
      assume "n \<noteq> 10"
      then have lt: "n < 10" and "n - 1 < 9" using a1 a2 by simp_all
      then have "too_close (candidate ?mx ?my e (n - 1)) cur" using all by blast
      then show False using a4 a6 lt by simp
    qed
    then show "n = 10 \<and> p = candidate ?mx ?my e 9" using a4 by simp
  qed
  show ?thesis
    unfolding run prod.case by (intro conjI a1 a2 a3 a4 a5 a6 a7)
qed

theorem retry_loop_bounded_witness:
  "list_all (\<lambda>j. too_close
       (candidate (max 0 (width \<lparr>width = 500, height = 400\<rparr> - width \<lparr>width = 80, height = 40\<rparr>))
          (max 0 (height \<lparr>width = 500, height = 400\<rparr> - height \<lparr>width = 80, height = 40\<rparr>))
          zero_env j) (10, 10)) [0..<9]
   \<and> fst (snd (calculateEvasionPosition_run \<lparr>width = 500, height = 400\<rparr>
                 \<lparr>width = 80, height = 40\<rparr> (10, 10) zero_env)) = 10
   \<and> fst (calculateEvasionPosition_run \<lparr>width = 500, height = 400\<rparr>
            \<lparr>width = 80, height = 40\<rparr> (10, 10) zero_env) = (0, 0)"
proof -
  have close: "\<forall>j < 9. too_close
       (candidate (max 0 (width \<lparr>width = 500, height = 400\<rparr> - width \<lparr>width = 80, height = 40\<rparr>))
          (max 0 (height \<lparr>width = 500, height = 400\<rparr> - height \<lparr>width = 80, height = 40\<rparr>))
          zero_env j) (10, 10)"
    by (simp add: candidate_def too_close_def zero_env_def)
  then have all: "list_all (\<lambda>j. too_close
       (candidate (max 0 (width \<lparr>width = 500, height = 400\<rparr> - width \<lparr>width = 80, height = 40\<rparr>))
          (max 0 (height \<lparr>width = 500, height = 400\<rparr> - height \<lparr>width = 80, height = 40\<rparr>))
          zero_env j) (10, 10)) [0..<9]"
    unfolding list_all_iff by simp
  have "fst (snd (calculateEvasionPosition_run \<lparr>width = 500, height = 400\<rparr>
                 \<lparr>width = 80, height = 40\<rparr> (10, 10) zero_env)) = 10
   \<and> fst (calculateEvasionPosition_run \<lparr>width = 500, height = 400\<rparr>
            \<lparr>width = 80, height = 40\<rparr> (10, 10) zero_env) = (0, 0)"
    using close
      retry_loop_bounded[where containerRect = "\<lparr>width = 500, height = 400\<rparr>"
        and buttonRect = "\<lparr>width = 80, height = 40\<rparr>" and cur = "(10, 10)" and e = zero_env]
    by (cases "calculateEvasionPosition_run \<lparr>width = 500, height = 400\<rparr>
          \<lparr>width = 80, height = 40\<rparr> (10, 10) zero_env")
       (simp add: candidate_def zero_env_def)
  with all show ?thesis by (rule conjI)
qed

text \<open>
  Claim C2. The minimum scale comes from the configuration, which takes it from \<open>(0, 1]\<close>;
  of that range only \<open>min_scale \<le> 1\<close> is needed. For every count and threshold,
  \<^verbatim>\<open>calculateShrinkScale\<close> returns exactly 1 when the count is below the threshold and
  \<open>max min_scale (1 - 0.1 * (count - threshold))\<close> otherwise, and the result always lies
  in \<open>[min_scale, 1]\<close>. With threshold 5 and minimum scale 0.3 the result is 0.8 at
  count 7 and 0.3 at count 20.
\<close>

theorem calculateShrinkScale_spec:
  assumes "m \<le> 1"
  shows "(c < t \<longrightarrow> calculateShrinkScale c t m = 1)
       \<and> (t \<le> c \<longrightarrow> calculateShrinkScale c t m = max m (1 - (1 / 10) * (c - t)))
       \<and> m \<le> calculateShrinkScale c t m \<and> calculateShrinkScale c t m \<le> 1
       \<and> calculateShrinkScale 7 5 (3 / 10) = 8 / 10
       \<and> calculateShrinkScale 20 5 (3 / 10) = 3 / 10"
  using assms by (auto simp: calculateShrinkScale_def Let_def max_def)

theorem calculateShrinkScale_spec_witness:
  "(3 / 10 :: real) \<le> 1 \<and> (5::real) \<le> 7 \<and> (4::real) < 5
   \<and> calculateShrinkScale 4 5 (3 / 10) = 1
   \<and> calculateShrinkScale 7 5 (3 / 10) = max (3 / 10) (1 - (1 / 10) * (7 - 5))
   \<and> calculateShrinkScale 7 5 (3 / 10) = 8 / 10
   \<and> 3 / 10 \<le> calculateShrinkScale 7 5 (3 / 10) \<and> calculateShrinkScale 7 5 (3 / 10) \<le> 1"
proof -
  have h: "(3 / 10 :: real) \<le> 1" by simp
  show ?thesis
    using h calculateShrinkScale_spec[OF h, of 7 5] calculateShrinkScale_spec[OF h, of 4 5]
    by simp
qed

section \<open>Properties of evasion as a state transition\<close>

lemma showPleadingMessage_eq:
  "showPleadingMessage container s cfg =
     (container\<lparr>pleading_message :=
        Some \<lparr>message_text =
                 nullish (js_index (pleadingMessages cfg)
                            (js_mod (currentMessageIndex s) (length (pleadingMessages cfg))))
                   fallbackMessage,
               message_animate = True\<rparr>\<rparr>,
      s\<lparr>currentMessageIndex := currentMessageIndex s + 1\<rparr>)"
  by (cases "pleading_message container")
     (simp_all add: showPleadingMessage_def Let_def)

lemma evadeNoButton_step:
  assumes "\<not> hasAnsweredYes s"
    and "evadeNoButton button container s cfg e = (button', container', s', e')"
  shows "evasionCount s' = evasionCount s + 1"
    and "currentMessageIndex s' = currentMessageIndex s + 1"
    and "\<not> hasAnsweredYes s'"
    and "map_option message_text (pleading_message container') =
           Some (nullish (js_index (pleadingMessages cfg)
                            (js_mod (currentMessageIndex s) (length (pleadingMessages cfg))))
                   fallbackMessage)"
  using assms
  by (auto simp: evadeNoButton_def Let_def showPleadingMessage_eq split: prod.splits)

lemma evade_sequence_spec:
  assumes "\<not> hasAnsweredYes s"
    and "evade_sequence layouts cfg (button, container, s, e) = (button', container', s', e')"
  shows "evasionCount s' = evasionCount s + length layouts
       \<and> currentMessageIndex s' = currentMessageIndex s + length layouts
       \<and> \<not> hasAnsweredYes s'
       \<and> (layouts \<noteq> [] \<longrightarrow>
            map_option message_text (pleading_message container') =
              Some (nullish (js_index (pleadingMessages cfg)
                       (js_mod (currentMessageIndex s + length layouts - 1)
                          (length (pleadingMessages cfg))))
                     fallbackMessage))"
  using assms
proof (induction layouts arbitrary: button container s e)
  case Nil
  then show ?case by simp
next
  case (Cons l layouts)
  obtain containerRect buttonRect where l: "l = (containerRect, buttonRect)"
    by (cases l) auto
  obtain b1 c1 s1 e1 where
    step: "evadeNoButton (button\<lparr>rect := buttonRect\<rparr>)
             (container\<lparr>container_rect := containerRect\<rparr>) s cfg e = (b1, c1, s1, e1)"
    by (metis prod_cases4)
  note st = evadeNoButton_step[OF Cons.prems(1) step]
  have rest: "evade_sequence layouts cfg (b1, c1, s1, e1) = (button', container', s', e')"
    using Cons.prems(2) by (simp add: l step)
  note IH = Cons.IH[OF st(3) rest]
  show ?case
  proof (cases "layouts = []")
    case True
    then have "(button', container', s', e') = (b1, c1, s1, e1)" using rest by simp
    then show ?thesis using st True by simp
  next
    case False
    then have "currentMessageIndex s1 + length layouts - 1
                 = currentMessageIndex s + length (l # layouts) - 1"
      using st(2) by simp
    then show ?thesis using IH st False by simp
  qed
qed

text \<open>
  Claim C3. When \<^verbatim>\<open>hasAnsweredYes\<close> is true, \<^verbatim>\<open>evadeNoButton\<close> changes nothing: the
  state record with its position, count, scale and message index, the button, the
  container and the random source are all as before the call, for every configuration and
  every layout.
\<close>

theorem evadeNoButton_noop_when_answered:
  "hasAnsweredYes s \<Longrightarrow> evadeNoButton button container s cfg e = (button, container, s, e)"
  by (simp add: evadeNoButton_def)

theorem evadeNoButton_noop_when_answered_witness:
  "hasAnsweredYes answered_state
   \<and> evadeNoButton example_button example_container answered_state example_config example_env
       = (example_button, example_container, answered_state, example_env)"
proof -
  have h: "hasAnsweredYes answered_state"
    by (simp add: answered_state_def)
  show ?thesis
    using h evadeNoButton_noop_when_answered[OF h] by simp
qed

text \<open>
  Claim C5. A sequence of \<open>N\<close> calls of \<^verbatim>\<open>evadeNoButton\<close> that starts on a state with
  \<^verbatim>\<open>hasAnsweredYes\<close> false, whatever the layout is at each call, adds exactly \<open>N\<close> to
  \<^verbatim>\<open>evasionCount\<close> and exactly \<open>N\<close> to \<^verbatim>\<open>currentMessageIndex\<close>, so the two move in
  lockstep, and the index taken modulo the number of messages advances by \<open>N\<close> as well.
  The flag stays false throughout, and the message on display after the last call is the
  one at index \<open>(cursor + N - 1) mod length\<close>: one message per evasion.
\<close>

theorem evade_sequence_counts:
  assumes "\<not> hasAnsweredYes s"
  shows "case evade_sequence layouts cfg (button, container, s, e) of
           (button', container', s', e') \<Rightarrow>
             evasionCount s' = evasionCount s + length layouts
             \<and> currentMessageIndex s' = currentMessageIndex s + length layouts
             \<and> js_mod (currentMessageIndex s') (length (pleadingMessages cfg))
                 = js_mod (currentMessageIndex s + length layouts)
                     (length (pleadingMessages cfg))
             \<and> \<not> hasAnsweredYes s'
             \<and> (layouts \<noteq> [] \<longrightarrow>
                  map_option message_text (pleading_message container') =
                    Some (nullish (js_index (pleadingMessages cfg)
                             (js_mod (currentMessageIndex s + length layouts - 1)
                                (length (pleadingMessages cfg))))
                           fallbackMessage))"
proof -
  obtain b' c' s' e' where
    r: "evade_sequence layouts cfg (button, container, s, e) = (b', c', s', e')"
    by (metis prod_cases4)
  from evade_sequence_spec[OF assms r] show ?thesis
    unfolding r prod.case by simp
qed

theorem evade_sequence_counts_witness:
  "\<not> hasAnsweredYes createInitialState
   \<and> evasionCount (fst (snd (snd (evade_sequence three_layouts example_config
         (example_button, example_container, createInitialState, example_env))))) = 3
   \<and> currentMessageIndex (fst (snd (snd (evade_sequence three_layouts example_config
         (example_button, example_container, createInitialState, example_env))))) = 3
   \<and> map_option message_text (pleading_message (fst (snd (evade_sequence three_layouts
         example_config (example_button, example_container, createInitialState, example_env)))))
       = Some ''Please?''"
proof -
  have h: "\<not> hasAnsweredYes createInitialState"
    by (simp add: createInitialState_def)
  have n: "length three_layouts = 3" "three_layouts \<noteq> []"
    by (simp_all add: three_layouts_def)
  have z: "evasionCount createInitialState = 0" "currentMessageIndex createInitialState = 0"
    by (simp_all add: createInitialState_def)
  have m: "nullish (js_index (pleadingMessages example_config)
             (js_mod 2 (length (pleadingMessages example_config)))) fallbackMessage
           = ''Please?''"
    by (simp add: example_config_def js_mod_def js_index_def nullish_def numeral_2_eq_2)
  show ?thesis
    using h evade_sequence_counts[OF h, of three_layouts example_config example_button
        example_container example_env]
    by (cases "evade_sequence three_layouts example_config
          (example_button, example_container, createInitialState, example_env)")
       (auto simp: n z m)
qed

text \<open>
  Claim C9. With an empty list of pleading messages the index expression is
  \<^verbatim>\<open>cursor % 0\<close>, the read yields \<^verbatim>\<open>undefined\<close>, and nothing on the path throws:
  \<^verbatim>\<open>showPleadingMessage\<close> displays the text \<^verbatim>\<open>'Please? '\<close> followed by U+1F97A (the
  bytes F0 9F A5 BA) and advances the message index by 1, and so does
  \<^verbatim>\<open>evadeNoButton\<close> on a state that has not been answered.
\<close>

theorem empty_messages_fallback:
  assumes "pleadingMessages cfg = []"
  shows "js_index (pleadingMessages cfg)
           (js_mod (currentMessageIndex s) (length (pleadingMessages cfg))) = None
       \<and> showPleadingMessage container s cfg =
           (container\<lparr>pleading_message :=
              Some \<lparr>message_text = ''Please? '' @ [CHR 0xF0, CHR 0x9F, CHR 0xA5, CHR 0xBA],
                    message_animate = True\<rparr>\<rparr>,
            s\<lparr>currentMessageIndex := currentMessageIndex s + 1\<rparr>)
       \<and> (\<not> hasAnsweredYes s \<longrightarrow>
           (case evadeNoButton button container s cfg e of
              (button', container', s', e') \<Rightarrow>
                pleading_message container' =
                  Some \<lparr>message_text = ''Please? '' @ [CHR 0xF0, CHR 0x9F, CHR 0xA5, CHR 0xBA],
                        message_animate = True\<rparr>
                \<and> currentMessageIndex s' = currentMessageIndex s + 1))"
  using assms
  by (auto simp: showPleadingMessage_eq fallbackMessage_def js_mod_def js_index_def nullish_def
      evadeNoButton_def Let_def split: prod.splits)

theorem empty_messages_fallback_witness:
  "pleadingMessages no_messages_config = []
   \<and> \<not> hasAnsweredYes createInitialState
   \<and> fst (showPleadingMessage example_container createInitialState no_messages_config) =
       example_container\<lparr>pleading_message :=
         Some \<lparr>message_text = ''Please? '' @ [CHR 0xF0, CHR 0x9F, CHR 0xA5, CHR 0xBA],
               message_animate = True\<rparr>\<rparr>
   \<and> currentMessageIndex
        (snd (showPleadingMessage example_container createInitialState no_messages_config)) = 1
   \<and> map_option message_text (pleading_message (fst (snd (evadeNoButton example_button
         example_container createInitialState no_messages_config example_env)))) =
       Some [CHR ''P'', CHR ''l'', CHR ''e'', CHR ''a'', CHR ''s'', CHR ''e'', CHR ''?'',
             CHR '' '', CHR 0xF0, CHR 0x9F, CHR 0xA5, CHR 0xBA]
   \<and> currentMessageIndex (fst (snd (snd (evadeNoButton example_button example_container
         createInitialState no_messages_config example_env)))) = 1"
proof -
  have h: "pleadingMessages no_messages_config = []"
    by (simp add: no_messages_config_def)
  have a: "\<not> hasAnsweredYes createInitialState"
    and z: "currentMessageIndex createInitialState = 0"
    by (simp_all add: createInitialState_def)
  show ?thesis
    using h a z
      empty_messages_fallback[OF h, of createInitialState example_container example_button
        example_env]
    by (cases "evadeNoButton example_button example_container createInitialState
          no_messages_config example_env")
       simp
qed

section \<open>Properties of the celebration\<close>

lemma heart_loop_step:
  "i < n \<Longrightarrow>
     heart_loop i n hs e =
       heart_loop (i + 1) n
         (hs @ [Heart (nullish (js_index heartEmojis (js_mod i (length heartEmojis)))
                         [CHR 0xF0, CHR 0x9F, CHR 0x92, CHR 0x95])
                  (random e (draws e) * 100) (random e (draws e + 1) * (1 / 2))
                  (1 + random e (draws e + 2) * 1)])
         (e\<lparr>draws := draws e + 3\<rparr>)"
  by (subst heart_loop.simps) (simp add: Math_random_def Let_def numeral_3_eq_3)

lemma heart_loop_stop: "\<not> i < n \<Longrightarrow> heart_loop i n hs e = (hs, e)"
  by (subst heart_loop.simps) simp

text \<open>
  The loop makes three draws for each remaining heart, appends one element for each, and
  keeps the elements it was given.
\<close>

lemma heart_loop_spec:
  "snd (heart_loop i n hs e) = e\<lparr>draws := draws e + 3 * (n - i)\<rparr>
   \<and> length (fst (heart_loop i n hs e)) = length hs + (n - i)
   \<and> take (length hs) (fst (heart_loop i n hs e)) = hs"
proof (induction "n - i" arbitrary: i hs e)
  case 0
  then show ?case by (simp add: heart_loop_stop)
next
  case (Suc k)
  then have lt: "i < n" and k: "k = n - (i + 1)" by simp_all
  let ?h = "Heart (nullish (js_index heartEmojis (js_mod i (length heartEmojis)))
                         [CHR 0xF0, CHR 0x9F, CHR 0x92, CHR 0x95])
                  (random e (draws e) * 100) (random e (draws e + 1) * (1 / 2))
                  (1 + random e (draws e + 2) * 1)"
  let ?e = "e\<lparr>draws := draws e + 3\<rparr>"
  note IH = Suc.hyps(1)[OF k, of "hs @ [?h]" ?e]
  have t: "take (length hs) (fst (heart_loop (i + 1) n (hs @ [?h]) ?e)) = hs"
  proof -
    have "take (length hs)
            (take (length (hs @ [?h])) (fst (heart_loop (i + 1) n (hs @ [?h]) ?e)))
          = take (length hs) (hs @ [?h])"
      using IH by simp
    then show ?thesis by (simp add: min_def)
  qed
  have d: "draws e + 3 + 3 * (n - (i + 1)) = draws e + 3 * (n - i)"
    using lt by simp
  show ?case
    using IH lt t d by (simp add: heart_loop_step[OF lt])
qed

lemma createHeartParticles_env:
  "snd (createHeartParticles n e) = e\<lparr>draws := draws e + 3 * n\<rparr>"
  using heart_loop_spec[of 0 n "[]" e] by (simp add: createHeartParticles_def)

lemma createHeartParticles_length: "length (fst (createHeartParticles n e)) = n"
  using heart_loop_spec[of 0 n "[]" e] by (simp add: createHeartParticles_def)

lemma createHeartParticles_hd:
  assumes "0 < n"
  shows "hd (fst (createHeartParticles n e)) =
           Heart (nullish (js_index heartEmojis (js_mod 0 (length heartEmojis)))
                    [CHR 0xF0, CHR 0x9F, CHR 0x92, CHR 0x95])
             (random e (draws e) * 100) (random e (draws e + 1) * (1 / 2))
             (1 + random e (draws e + 2) * 1)"
proof -
  let ?h = "Heart (nullish (js_index heartEmojis (js_mod 0 (length heartEmojis)))
                    [CHR 0xF0, CHR 0x9F, CHR 0x92, CHR 0x95])
             (random e (draws e) * 100) (random e (draws e + 1) * (1 / 2))
             (1 + random e (draws e + 2) * 1)"
  let ?r = "fst (heart_loop (0 + 1) n ([] @ [?h]) (e\<lparr>draws := draws e + 3\<rparr>))"
  have eq: "fst (createHeartParticles n e) = ?r"
    unfolding createHeartParticles_def by (subst heart_loop_step[OF assms]) simp
  have "take (length ([] @ [?h])) ?r = [] @ [?h]"
    using heart_loop_spec[of "0 + 1" n "[] @ [?h]" "e\<lparr>draws := draws e + 3\<rparr>"] by blast
  then have "take 1 ?r = [?h]" by simp
  then have "hd ?r = ?h"
    by (metis hd_take list.sel(1) zero_less_one)
  then show ?thesis using eq by simp
qed

text \<open>\<^verbatim>\<open>triggerCelebration\<close> in one equation, by the motion preference.\<close>

lemma triggerCelebration_eq:
  "triggerCelebration cel s cfg e =
     (if reducedMotion e
      then (cel\<lparr>children := [createCelebrationMessage cfg], hidden := False, active := True\<rparr>,
            s\<lparr>hasAnsweredYes := True\<rparr>, e)
      else (cel\<lparr>children := fst (createHeartParticles 20 e) @ [createCelebrationMessage cfg],
                 hidden := False, active := True\<rparr>,
            s\<lparr>hasAnsweredYes := True\<rparr>, snd (createHeartParticles 20 e)))"
  by (simp add: triggerCelebration_def Let_def prefersReducedMotion_def split: prod.splits)

lemma triggerCelebration_first_child:
  assumes "\<not> reducedMotion e"
  shows "hd (children (fst (triggerCelebration cel s cfg e))) =
           Heart (nullish (js_index heartEmojis (js_mod 0 (length heartEmojis)))
                    [CHR 0xF0, CHR 0x9F, CHR 0x92, CHR 0x95])
             (random e (draws e) * 100) (random e (draws e + 1) * (1 / 2))
             (1 + random e (draws e + 2) * 1)"
proof -
  have "length (fst (createHeartParticles 20 e)) = 20"
    by (rule createHeartParticles_length)
  then have "fst (createHeartParticles 20 e) \<noteq> []" by auto
  then show ?thesis
    using assms by (simp add: triggerCelebration_eq createHeartParticles_hd)
qed

lemma set_celebrationContainer_same:
  "the_celebrationContainer g = Some cel \<Longrightarrow> set_celebrationContainer cel g = g"
  by (cases g; cases "g_page g")
     (auto simp: the_celebrationContainer_def set_celebrationContainer_def split: if_splits)

lemma set_container_same:
  "the_container g = Some c \<Longrightarrow> set_container c g = g"
  by (cases g; cases "g_page g")
     (auto simp: the_container_def set_container_def split: if_splits)

lemma answered_game_state: "hasAnsweredYes (g_state answered_game)"
  by (simp add: answered_game_def run_def createLoveGame_def init_def the_container_def
      example_page_def Let_def set_container_def approachNoButton_def the_noButton_def
      evadeNoButton_def createInitialState_def set_noButton_def activateYesButton_def
      the_celebrationContainer_def handleYesClick_def triggerCelebration_eq
      set_celebrationContainer_def example_env_def
      split: prod.splits option.splits)

lemma fold_run_cleanup_state: "g_state (fold run_cleanup cs g) = g_state g"
proof (induction cs arbitrary: g)
  case Nil
  show ?case by simp
next
  case (Cons c cs)
  show ?case by (cases c) (simp_all add: Cons.IH)
qed

text \<open>
  Claim C4, as stated, makes a second call of \<^verbatim>\<open>triggerCelebration\<close> a no-op that does
  not render again. The function has no guard of its own: called on the state that a
  first celebration left, with \<^verbatim>\<open>hasAnsweredYes\<close> true, it empties the celebration
  container and builds it again from 60 further draws, so its first heart is another one
  than before.
\<close>

theorem celebration_rerenders_counterexample:
  "hasAnsweredYes (fst (snd first_celebration))
   \<and> second_celebration \<noteq> first_celebration
   \<and> hd (children (fst first_celebration)) \<noteq> hd (children (fst second_celebration))
   \<and> draws (snd (snd first_celebration)) = 60
   \<and> draws (snd (snd second_celebration)) = 120"
proof -
  have e1: "snd (snd first_celebration) = varying_env\<lparr>draws := 60\<rparr>"
    by (simp add: first_celebration_def triggerCelebration_eq createHeartParticles_env
        varying_env_def)
  have s1: "hasAnsweredYes (fst (snd first_celebration))"
    by (simp add: first_celebration_def triggerCelebration_eq)
  have e2: "draws (snd (snd second_celebration)) = 120"
    by (simp add: second_celebration_def e1 triggerCelebration_eq createHeartParticles_env
        varying_env_def)
  have h1: "hd (children (fst first_celebration)) =
              Heart (nullish (js_index heartEmojis (js_mod 0 (length heartEmojis)))
                    [CHR 0xF0, CHR 0x9F, CHR 0x92, CHR 0x95]) 50 (1 / 6) (5 / 4)"
    unfolding first_celebration_def
    by (subst triggerCelebration_first_child) (simp_all add: varying_env_def)
  have h2: "hd (children (fst second_celebration)) =
              Heart (nullish (js_index heartEmojis (js_mod 0 (length heartEmojis)))
                    [CHR 0xF0, CHR 0x9F, CHR 0x92, CHR 0x95]) (50 / 31) (1 / 126) (65 / 64)"
    unfolding second_celebration_def e1
    by (subst triggerCelebration_first_child) (simp_all add: varying_env_def)
  have ne: "hd (children (fst first_celebration)) \<noteq> hd (children (fst second_celebration))"
    unfolding h1 h2 by simp
  then have "second_celebration \<noteq> first_celebration" by auto
  then show ?thesis using s1 ne e1 e2 by simp
qed

text \<open>
  Claim C4, amended. On a state with \<^verbatim>\<open>hasAnsweredYes\<close> true, a call of
  \<^verbatim>\<open>triggerCelebration\<close> leaves the state record exactly as it was. The guard against a
  repeated celebration is in the callers: the handler that \<^verbatim>\<open>setupYesButtonHandlers\<close>
  installs changes nothing at all then (state, celebration container, random source) and
  does not call \<^verbatim>\<open>onCelebration\<close>, and on a game handle both \<^verbatim>\<open>triggerCelebration\<close>
  and an activation of the Yes button leave the whole game as it is.
\<close>

theorem repeated_celebration_guarded:
  "(hasAnsweredYes s \<longrightarrow>
      fst (snd (triggerCelebration cel s cfg e)) = s
      \<and> handleYesClick cel s cfg notify e collaborator = (cel, s, e, collaborator))
   \<and> (hasAnsweredYes (g_state g) \<longrightarrow>
        triggerCelebrationManual g = g \<and> activateYesButton g = g)"
proof -
  have a: "fst (snd (triggerCelebration cel s cfg e)) = s" if "hasAnsweredYes s"
    using that by (simp add: triggerCelebration_eq)
  have b: "handleYesClick cel s cfg notify e collaborator = (cel, s, e, collaborator)"
    if "hasAnsweredYes s"
    using that by (simp add: handleYesClick_def)
  have c: "triggerCelebrationManual g = g" if "hasAnsweredYes (g_state g)"
    using that by (simp add: triggerCelebrationManual_def split: option.splits)
  have d: "activateYesButton g = g" if h: "hasAnsweredYes (g_state g)"
  proof (cases "yesButtonListeners g")
    case False
    then show ?thesis by (simp add: activateYesButton_def)
  next
    case True
    show ?thesis
    proof (cases "the_celebrationContainer g")
      case None
      then show ?thesis by (simp add: activateYesButton_def)
    next
      case (Some cel')
      have g1: "set_celebrationContainer cel' (g\<lparr>g_state := g_state g, g_env := g_env g\<rparr>) = g"
        using set_celebrationContainer_same[OF Some] by simp
      show ?thesis
        using True Some h g1
        by (simp add: activateYesButton_def handleYesClick_def set_container_same
            split: option.splits)
    qed
  qed
  show ?thesis using a b c d by blast
qed

theorem repeated_celebration_guarded_witness:
  "hasAnsweredYes answered_state
   \<and> hasAnsweredYes (g_state answered_game)
   \<and> fst (snd (triggerCelebration example_celebration answered_state example_config example_env))
       = answered_state
   \<and> handleYesClick example_celebration answered_state example_config (Some Suc) example_env
        (0::nat) = (example_celebration, answered_state, example_env, 0)
   \<and> triggerCelebrationManual answered_game = answered_game
   \<and> activateYesButton answered_game = answered_game"
proof -
  have h: "hasAnsweredYes answered_state"
    by (simp add: answered_state_def)
  show ?thesis
    using h answered_game_state
      repeated_celebration_guarded[of answered_state example_celebration example_config
        example_env "Some Suc" "0::nat" answered_game]
    by simp
qed

text \<open>
  Claim C6. A call of \<^verbatim>\<open>triggerCelebration\<close> returns the state it was given with
  \<^verbatim>\<open>hasAnsweredYes\<close> set to true and nothing else changed: the position of the No
  button, the evasion count, the scale and the message index keep their values. This
  holds for every state, so in particular for the first call, on a state that is not yet
  answered.
\<close>

theorem triggerCelebration_frame:
  "fst (snd (triggerCelebration cel s cfg e)) = s\<lparr>hasAnsweredYes := True\<rparr>
   \<and> hasAnsweredYes (fst (snd (triggerCelebration cel s cfg e)))
   \<and> noButtonPosition (fst (snd (triggerCelebration cel s cfg e))) = noButtonPosition s
   \<and> evasionCount (fst (snd (triggerCelebration cel s cfg e))) = evasionCount s
   \<and> noButtonScale (fst (snd (triggerCelebration cel s cfg e))) = noButtonScale s
   \<and> currentMessageIndex (fst (snd (triggerCelebration cel s cfg e))) = currentMessageIndex s"
  by (simp add: triggerCelebration_eq)

section \<open>Properties of the game handle\<close>

text \<open>
  Claim C10. After \<^verbatim>\<open>destroy\<close> the state record is the one that
  \<^verbatim>\<open>createInitialState\<close> produces: position \<open>(0, 0)\<close>, not answered, count 0, scale 1,
  message index 0. This holds for every game, and so for every game reached from
  \<^verbatim>\<open>createLoveGame\<close> by any sequence of events.
\<close>

theorem destroy_resets_state:
  "g_state (destroy g) = createInitialState
   \<and> getState (destroy (run events (createLoveGame cfg page e))) =
       \<lparr>noButtonPosition = (0, 0), hasAnsweredYes = False, evasionCount = 0,
        noButtonScale = 1, currentMessageIndex = 0\<rparr>"
proof -
  have "g_state (destroy g) = createInitialState" for g
    by (cases "g_state g")
       (simp add: destroy_def Let_def createInitialState_def set_noButton_def
        set_celebrationContainer_def set_container_def fold_run_cleanup_state
        split: option.splits)
  then show ?thesis by (simp add: getState_def createInitialState_def)
qed

end
